theory Spec2Isabelle
  imports Complex_Main "HOL-Library.Char_ord" "HOL-Library.List_Lexorder" "HOL-Library.Multiset"
begin

section \<open>Compounds, their microspecies ladder and the compound cache\<close>

text \<open>
  A shallow embedding of \<^verbatim>\<open>compound.py\<close> and \<^verbatim>\<open>compound_cacher.py\<close>.
  Python floats are read as real numbers (exact arithmetic, no rounding, no not-a-number
  among the dissociation constants); Python integers are \<open>int\<close>. Exceptions are values
  of the type \<open>exn\<close>, and a function that may raise returns \<open>exn + 'a\<close>.
\<close>

subsection \<open>Exceptions\<close>

text \<open>
  \<open>ValueError\<close> carries the message of a \<^verbatim>\<open>raise ValueError(...)\<close> written in the
  source. \<open>ShapeError\<close> is the \<^verbatim>\<open>ValueError\<close> that \<^verbatim>\<open>numpy.vstack\<close> raises when the
  stacked arrays differ in length. \<open>ExternalError\<close> is any other exception that an external
  collaborator raises.
\<close>

datatype exn = ChemAxonError | ValueError string | ShapeError | ExternalError string

subsection \<open>The Compound class\<close>

record compound =
  database :: string
  compound_id :: string
  inchi :: "string option"
  pKas :: "real list"
  majorMSpH7 :: int
  nHs :: "int list"
  zs :: "int list"

text \<open>The constructor \<^verbatim>\<open>Compound.__init__\<close>: it stores its arguments, unchecked.\<close>

definition Compound ::
  "string \<Rightarrow> string \<Rightarrow> string option \<Rightarrow> real list \<Rightarrow> int \<Rightarrow> int list \<Rightarrow> int list \<Rightarrow> compound"
where
  "Compound db cid i ps m hs cs =
     \<lparr>database = db, compound_id = cid, inchi = i, pKas = ps, majorMSpH7 = m, nHs = hs, zs = cs\<rparr>"

subsection \<open>Thermodynamic constants and numeric library\<close>

text \<open>
  The module \<^verbatim>\<open>thermodynamic_constants\<close> (the gas constant \<^verbatim>\<open>R\<close> and the function
  \<^verbatim>\<open>debye_huckel\<close>, called with the pair \<^verbatim>\<open>(I, T)\<close>) and \<^verbatim>\<open>scipy.misc.logsumexp\<close>
  are not part of the two source files: they are parameters of the model.
\<close>

record thermo =
  R :: real
  debye_huckel :: "real \<times> real \<Rightarrow> real"
  logsumexp :: "real list \<Rightarrow> real"

subsection \<open>Python and numpy helpers\<close>

text \<open>The slice \<^verbatim>\<open>xs[:k]\<close>: a negative \<open>k\<close> counts from the end of the list.\<close>

definition slice_to :: "'a list \<Rightarrow> int \<Rightarrow> 'a list" where
  "slice_to xs k = (if k < 0 then take (length xs - nat (- k)) xs else take (nat k) xs)"

text \<open>\<^verbatim>\<open>xs.index(v)\<close>: the first position of \<open>v\<close>, \<open>None\<close> where Python raises ValueError.\<close>

fun index_of :: "'a list \<Rightarrow> 'a \<Rightarrow> nat option" where
  "index_of [] v = None"
| "index_of (x # xs) v = (if x = v then Some 0 else map_option Suc (index_of xs v))"

text \<open>\<^verbatim>\<open>numpy.cumsum\<close>: the running sums of a list.\<close>

fun cumsum_from :: "real \<Rightarrow> real list \<Rightarrow> real list" where
  "cumsum_from acc [] = []"
| "cumsum_from acc (x # xs) = (acc + x) # cumsum_from (acc + x) xs"

definition cumsum :: "real list \<Rightarrow> real list" where
  "cumsum xs = cumsum_from 0 xs"

text \<open>
  \<^verbatim>\<open>numpy.vstack([a, b, c]).T\<close> for three one-row arrays: the rows of the transposed
  matrix, one triple per index. The three arrays must have the same length.
\<close>

definition vstack3_T :: "real list \<Rightarrow> real list \<Rightarrow> real list \<Rightarrow> exn + (real \<times> real \<times> real) list" where
  "vstack3_T a b c =
     (if length a = length b \<and> length b = length c then Inr (zip a (zip b c)) else Inl ShapeError)"

subsection \<open>The transforms\<close>

text \<open>
  \<^verbatim>\<open>Compound._transform\<close> (an Isabelle name cannot start with an underscore). The
  array \<open>dG0s\<close> is \<^verbatim>\<open>np.zeros((1, 1))\<close> when there are no pKas and the negated running
  sums of \<^verbatim>\<open>[0] + pKas\<close> times \<^verbatim>\<open>R * T * log(10)\<close> otherwise.
\<close>

definition transform_core :: "thermo \<Rightarrow> compound \<Rightarrow> real \<Rightarrow> real \<Rightarrow> real \<Rightarrow> exn + real" where
  "transform_core th c pH I T =
     (if inchi c = None then Inr 0
      else
        let dG0s = (if pKas c = [] then [0]
                    else map (\<lambda>s. - s * R th * T * ln 10) (cumsum (0 # pKas c)));
            DH = debye_huckel th (I, T)
        in case vstack3_T dG0s (map real_of_int (nHs c)) (map real_of_int (zs c)) of
             Inl e \<Rightarrow> Inl e
           | Inr pseudoisomers \<Rightarrow>
               let dG0_prime_vector =
                     map (\<lambda>(g, n, z). g + n * (R th * T * ln 10 * pH + DH) - z ^ 2 * DH) pseudoisomers
               in Inr (- R th * T * logsumexp th (map (\<lambda>v. v / (- R th * T)) dG0_prime_vector)))"

text \<open>\<^verbatim>\<open>Compound.transform\<close>: \<open>ddG0\<close> is computed first, then the shared term is added.\<close>

definition transform :: "thermo \<Rightarrow> compound \<Rightarrow> real \<Rightarrow> real \<Rightarrow> real \<Rightarrow> exn + real" where
  "transform th c pH I T =
     (let ddG0 = sum_list (slice_to (pKas c) (majorMSpH7 c)) * R th * T * ln 10
      in case transform_core th c pH I T of
           Inl e \<Rightarrow> Inl e
         | Inr v \<Rightarrow> Inr (v + ddG0))"

text \<open>The message of the ValueError that \<^verbatim>\<open>transform_neutral\<close> raises.\<close>

definition no_zero_charge_msg :: "compound \<Rightarrow> string" where
  "no_zero_charge_msg c =
     ''The compound ('' @ compound_id c @ '') does not have a microspecies with 0 charge''"

text \<open>\<^verbatim>\<open>Compound.transform_neutral\<close>.\<close>

definition transform_neutral :: "thermo \<Rightarrow> compound \<Rightarrow> real \<Rightarrow> real \<Rightarrow> real \<Rightarrow> exn + real" where
  "transform_neutral th c pH I T =
     (case index_of (zs c) 0 of
        None \<Rightarrow> Inl (ValueError (no_zero_charge_msg c))
      | Some MS_ind \<Rightarrow>
          (let ddG0 = sum_list (slice_to (pKas c) (int MS_ind)) * R th * T * ln 10
           in (case transform_core th c pH I T of
                 Inl e \<Rightarrow> Inl e
               | Inr v \<Rightarrow> Inr (v + ddG0))))"

subsection \<open>External collaborators\<close>

text \<open>
  A Python dict from element symbols to counts is an association list with distinct keys.
\<close>

type_synonym atom_bag = "(string \<times> int) list"

definition dict_get :: "('k \<times> 'v) list \<Rightarrow> 'k \<Rightarrow> 'v \<Rightarrow> 'v" where
  "dict_get d k dflt = (case map_of d k of None \<Rightarrow> dflt | Some v \<Rightarrow> v)"

fun dict_set :: "('k \<times> 'v) list \<Rightarrow> 'k \<Rightarrow> 'v \<Rightarrow> ('k \<times> 'v) list" where
  "dict_set [] k v = [(k, v)]"
| "dict_set ((k', v') # d) k v = (if k' = k then (k, v) # d else (k', v') # dict_set d k v)"

text \<open>
  The calls that leave the process, in the order in which they are made: the Structure
  Resolver (\<^verbatim>\<open>get_inchi\<close>), the Microspecies Predictor (\<^verbatim>\<open>GetDissociationConstants\<close>),
  the notation conversion (\<^verbatim>\<open>smiles2inchi\<close>) and the Descriptor Extractor
  (\<^verbatim>\<open>get_atom_bag_and_charge_from_inchi\<close>).
\<close>

datatype call =
    is_Resolver: Resolver int
  | is_Predictor: Predictor string
  | is_Converter: Converter string
  | is_Extractor: Extractor "string option"

text \<open>
  The collaborators are parameters. \<open>get_inchi\<close> is the HTTP request to KEGG followed by
  the OpenBabel conversion; \<open>GetDissociationConstants\<close> is ChemAxon's predictor, which
  raises \<open>ChemAxonError\<close> when it cannot process a structure; \<open>smiles2inchi\<close> is the
  OpenBabel conversion, absent on failure; \<open>get_atom_bag_and_charge_from_inchi\<close> is
  ChemAxon's formula and formal charge, read into a dict of element counts (the Descriptor
  Extractor of the specification, taken here with any behaviour, failure included);
  \<open>GetAtomicNum\<close> is OpenBabel's element table.
\<close>

record collab =
  get_inchi :: "int \<Rightarrow> exn + string option"
  GetDissociationConstants :: "string \<Rightarrow> exn + real list \<times> string"
  smiles2inchi :: "string \<Rightarrow> string option"
  get_atom_bag_and_charge_from_inchi :: "string option \<Rightarrow> exn + atom_bag \<times> int"
  GetAtomicNum :: "string \<Rightarrow> int"

subsection \<open>Identities\<close>

text \<open>\<^verbatim>\<open>'C%05d' % cid\<close>: the decimal digits, padded with zeros to five characters.\<close>

definition digit_char :: "nat \<Rightarrow> char" where
  "digit_char d = ''0123456789'' ! d"

fun digits_of :: "nat \<Rightarrow> string" where
  "digits_of n = (if n < 10 then [digit_char n] else digits_of (n div 10) @ [digit_char (n mod 10)])"

declare digits_of.simps [simp del]

definition format_05d :: "int \<Rightarrow> string" where
  "format_05d n =
     (if 0 \<le> n
      then (let ds = digits_of (nat n) in replicate (5 - length ds) CHR ''0'' @ ds)
      else (let ds = digits_of (nat (- n)) in CHR ''-'' # replicate (4 - length ds) CHR ''0'' @ ds))"

definition format_cid :: "int \<Rightarrow> string" where
  "format_cid cid = CHR ''C'' # format_05d cid"

subsection \<open>Ladder derivation\<close>

definition MIN_PH :: real where
  "MIN_PH = 0"

definition MAX_PH :: real where
  "MAX_PH = 14"

type_synonym ladder = "real list \<times> int \<times> int list \<times> int list"

text \<open>
  The \<^verbatim>\<open>try\<close> block of \<^verbatim>\<open>get_species_pka\<close> and its \<^verbatim>\<open>except ChemAxonError\<close>
  handler: the filtered, descending pKas and the structure of the major microspecies,
  with the calls made. Any other exception of the predictor propagates. \<open>moltype_msg\<close>
  is the message of the ValueError for an unknown \<^verbatim>\<open>moltype\<close>, with its double quotes.
\<close>

definition moltype_msg :: string where
  "moltype_msg =
     ''Can only handle '' @ [CHR 0x22] @ ''inchi'' @ [CHR 0x22] @ '' or '' @ [CHR 0x22]
       @ ''smiles'' @ [CHR 0x22] @ '' molstrings''"

definition predict_or_fall_back ::
  "collab \<Rightarrow> string \<Rightarrow> string \<Rightarrow> (exn + real list \<times> string option) \<times> call list"
where
  "predict_or_fall_back env molstring moltype =
     (case GetDissociationConstants env molstring of
        Inr (raw, major_ms) \<Rightarrow>
          (Inr (rev (sort (filter (\<lambda>pka. pka > MIN_PH \<and> pka < MAX_PH) raw)),
                smiles2inchi env major_ms),
           [Predictor molstring, Converter major_ms])
      | Inl ChemAxonError \<Rightarrow>
          (if moltype = ''inchi'' then (Inr ([], Some molstring), [Predictor molstring])
           else if moltype = ''smiles''
           then (Inr ([], smiles2inchi env molstring), [Predictor molstring, Converter molstring])
           else (Inl (ValueError moltype_msg),
                 [Predictor molstring]))
      | Inl e \<Rightarrow> (Inl e, [Predictor molstring]))"

text \<open>\<^verbatim>\<open>Compound.get_species_pka\<close>.\<close>

definition get_species_pka :: "collab \<Rightarrow> string option \<Rightarrow> string \<Rightarrow> (exn + ladder) \<times> call list" where
  "get_species_pka env molstring moltype =
     (case molstring of
        None \<Rightarrow> (Inr ([], - 1, [], []), [])
      | Some ms \<Rightarrow>
          (case predict_or_fall_back env ms moltype of
             (Inl e, calls) \<Rightarrow> (Inl e, calls)
           | (Inr (pKas', major_ms_inchi), calls) \<Rightarrow>
               (case get_atom_bag_and_charge_from_inchi env major_ms_inchi of
                  Inl e \<Rightarrow> (Inl e, calls @ [Extractor major_ms_inchi])
                | Inr (atom_bag, major_ms_charge) \<Rightarrow>
                    (let major_ms_nH = dict_get atom_bag ''H'' 0;
                         n_species = length pKas' + 1;
                         majorMSpH7' = (if pKas' = [] then 0
                                        else int (length (filter (\<lambda>pka. pka > 7) pKas')));
                         zs' = map (\<lambda>i. (int i - majorMSpH7') + major_ms_charge) [0 ..< n_species];
                         nHs' = map (\<lambda>i. (int i - majorMSpH7') + major_ms_nH) [0 ..< n_species]
                     in (Inr (pKas', majorMSpH7', nHs', zs'),
                         calls @ [Extractor major_ms_inchi])))))"

text \<open>\<^verbatim>\<open>Compound.from_kegg\<close>.\<close>

definition from_kegg :: "collab \<Rightarrow> int \<Rightarrow> (exn + compound) \<times> call list" where
  "from_kegg env cid =
     (case get_inchi env cid of
        Inl e \<Rightarrow> (Inl e, [Resolver cid])
      | Inr inchi' \<Rightarrow>
          (if cid \<in> set [80] \<or> inchi' = None
           then (Inr (Compound ''KEGG'' (format_cid cid) inchi' [] 0 [0] [0]), [Resolver cid])
           else (case get_species_pka env inchi' ''inchi'' of
                   (Inl e, calls) \<Rightarrow> (Inl e, Resolver cid # calls)
                 | (Inr (pKas', majorMSpH7', nHs', zs'), calls) \<Rightarrow>
                     (Inr (Compound ''KEGG'' (format_cid cid) inchi' pKas' majorMSpH7' nHs' zs'),
                      Resolver cid # calls))))"

text \<open>\<^verbatim>\<open>Compound.get_atom_bag_with_electrons\<close>.\<close>

definition get_atom_bag_with_electrons :: "collab \<Rightarrow> compound \<Rightarrow> (exn + atom_bag option) \<times> call list" where
  "get_atom_bag_with_electrons env c =
     (case inchi c of
        None \<Rightarrow> (Inr None, [])
      | Some s \<Rightarrow>
          (case get_atom_bag_and_charge_from_inchi env (Some s) of
             Inl e \<Rightarrow> (Inl e, [Extractor (Some s)])
           | Inr (atom_bag, charge) \<Rightarrow>
               (let n_protons = sum_list (map (\<lambda>(elem, count). count * GetAtomicNum env elem) atom_bag)
                in (Inr (Some (dict_set atom_bag ''e-'' (n_protons - charge))),
                    [Extractor (Some s)]))))"

subsection \<open>The persisted record\<close>

text \<open>
  One record of the JSON cache file, with the seven keys that \<^verbatim>\<open>to_json_dict\<close> writes.
\<close>

record persisted =
  d_database :: string
  d_id :: string
  d_inchi :: "string option"
  d_pKas :: "real list"
  d_majorMSpH7 :: int
  d_nHs :: "int list"
  d_zs :: "int list"

definition to_json_dict :: "compound \<Rightarrow> persisted" where
  "to_json_dict c =
     \<lparr>d_database = database c, d_id = compound_id c, d_inchi = inchi c, d_pKas = pKas c,
      d_majorMSpH7 = majorMSpH7 c, d_nHs = nHs c, d_zs = zs c\<rparr>"

definition from_json_dict :: "persisted \<Rightarrow> compound" where
  "from_json_dict d =
     Compound (d_database d) (d_id d) (d_inchi d) (d_pKas d) (d_majorMSpH7 d) (d_nHs d) (d_zs d)"

subsection \<open>The compound cache\<close>

record cache =
  compound_dict :: "string \<rightharpoonup> compound"
  compound_ids :: "string list"
  need_to_update_cache_file :: bool

text \<open>
  \<^verbatim>\<open>CompoundCacher.load\<close>: the argument is the list of records of the cache file,
  \<open>None\<close> when the file does not exist.
\<close>

fun load_records :: "persisted list \<Rightarrow> cache \<Rightarrow> cache" where
  "load_records [] ch = ch"
| "load_records (d # ds) ch =
     load_records ds
       (ch\<lparr>compound_ids := compound_ids ch @ [d_id d],
           compound_dict := (compound_dict ch)(d_id d \<mapsto> from_json_dict d)\<rparr>)"

definition load :: "persisted list option \<Rightarrow> cache \<Rightarrow> cache" where
  "load file ch =
     (let ch0 = ch\<lparr>compound_dict := Map.empty, compound_ids := []\<rparr>
      in case file of None \<Rightarrow> ch0 | Some ds \<Rightarrow> load_records ds ch0)"

text \<open>
  \<^verbatim>\<open>CompoundCacher.get_kegg_additions\<close>: one row of the additions file is the pair of
  \<^verbatim>\<open>int(row['cid'])\<close> and \<^verbatim>\<open>row['inchi']\<close> (absent when the row is short). An exception
  leaves the loop; the entries stored before it stay.
\<close>

fun get_kegg_additions ::
  "collab \<Rightarrow> (int \<times> string option) list \<Rightarrow> cache \<Rightarrow> (exn + unit) \<times> cache \<times> call list"
where
  "get_kegg_additions env [] ch = (Inr (), ch, [])"
| "get_kegg_additions env ((cid, inchi') # rows) ch =
     (let compound_id' = format_cid cid
      in if (case compound_dict ch compound_id' of
               None \<Rightarrow> True
             | Some old \<Rightarrow> inchi' \<noteq> inchi old)
         then (case get_species_pka env inchi' ''inchi'' of
                 (Inl e, calls) \<Rightarrow> (Inl e, ch, calls)
               | (Inr (pKas', majorMSpH7', nHs', zs'), calls) \<Rightarrow>
                   (let comp' = Compound ''KEGG'' compound_id' inchi' pKas' majorMSpH7' nHs' zs';
                        ch' = ch\<lparr>compound_dict := (compound_dict ch)(compound_id comp' \<mapsto> comp'),
                                 need_to_update_cache_file := True\<rparr>
                    in (case get_kegg_additions env rows ch' of
                          (r, ch'', calls') \<Rightarrow> (r, ch'', calls @ calls'))))
         else get_kegg_additions env rows ch)"

text \<open>\<^verbatim>\<open>CompoundCacher.get_kegg_compound\<close>.\<close>

definition get_kegg_compound :: "collab \<Rightarrow> int \<Rightarrow> cache \<Rightarrow> (exn + compound) \<times> cache \<times> call list" where
  "get_kegg_compound env cid ch =
     (let compound_id' = format_cid cid
      in case compound_dict ch compound_id' of
           Some comp' \<Rightarrow> (Inr comp', ch, [])
         | None \<Rightarrow>
             (case from_kegg env cid of
                (Inl e, calls) \<Rightarrow> (Inl e, ch, calls)
              | (Inr comp', calls) \<Rightarrow>
                  (Inr comp',
                   ch\<lparr>compound_dict := (compound_dict ch)(compound_id comp' \<mapsto> comp'),
                      need_to_update_cache_file := True\<rparr>,
                   calls)))"

subsection \<open>The elemental matrix\<close>

text \<open>One cell of the float matrix: a number or numpy's not-a-number.\<close>

datatype entry = Num real | NaN

text \<open>
  The first loop of \<^verbatim>\<open>get_kegg_ematrix\<close>, with its two accumulators \<open>elements\<close> and
  \<open>atom_bag_list\<close>.
\<close>

fun gather_atom_bags ::
  "collab \<Rightarrow> int list \<Rightarrow> cache \<Rightarrow> string set \<Rightarrow> atom_bag option list \<Rightarrow>
   (exn + string set \<times> atom_bag option list) \<times> cache \<times> call list"
where
  "gather_atom_bags env [] ch elements atom_bag_list = (Inr (elements, atom_bag_list), ch, [])"
| "gather_atom_bags env (cid # cids) ch elements atom_bag_list =
     (case get_kegg_compound env cid ch of
        (Inl e, ch', calls) \<Rightarrow> (Inl e, ch', calls)
      | (Inr comp', ch', calls) \<Rightarrow>
          (case get_atom_bag_with_electrons env comp' of
             (Inl e, calls') \<Rightarrow> (Inl e, ch', calls @ calls')
           | (Inr atom_bag, calls') \<Rightarrow>
               (let elements' = (case atom_bag of
                                   None \<Rightarrow> elements
                                 | Some b \<Rightarrow> elements \<union> set (map fst b))
                in (case gather_atom_bags env cids ch' elements' (atom_bag_list @ [atom_bag]) of
                      (r, ch'', calls'') \<Rightarrow> (r, ch'', calls @ calls' @ calls'')))))"

text \<open>The second loop: the row of one compound.\<close>

definition ematrix_row :: "string list \<Rightarrow> atom_bag option \<Rightarrow> entry list" where
  "ematrix_row elements atom_bag =
     (case atom_bag of
        None \<Rightarrow> replicate (length elements) NaN
      | Some b \<Rightarrow> map (\<lambda>elem. Num (real_of_int (dict_get b elem 0))) elements)"

text \<open>\<^verbatim>\<open>CompoundCacher.get_kegg_ematrix\<close>.\<close>

definition get_kegg_ematrix ::
  "collab \<Rightarrow> int list \<Rightarrow> cache \<Rightarrow> (exn + string list \<times> entry list list) \<times> cache \<times> call list"
where
  "get_kegg_ematrix env cids ch =
     (case gather_atom_bags env cids ch {} [] of
        (Inl e, ch', calls) \<Rightarrow> (Inl e, ch', calls)
      | (Inr (elements, atom_bag_list), ch', calls) \<Rightarrow>
          (let elements' = sorted_list_of_set (elements - {''H''});
               Ematrix = map (ematrix_row elements') atom_bag_list
           in (Inr (elements', Ematrix), ch', calls)))"

subsection \<open>The transforms as the specification words them\<close>

text \<open>
  \<open>baseOffset k\<close>: the sum of the first \<open>k\<close> entries of \<open>pKas\<close>, times \<open>R * T * ln 10\<close>.
\<close>

definition baseOffset :: "thermo \<Rightarrow> compound \<Rightarrow> int \<Rightarrow> real \<Rightarrow> real" where
  "baseOffset th c k T = sum_list (take (nat k) (pKas c)) * (R th * T * ln 10)"

text \<open>
  The reference definition of the shared term for a compound with a structure: the
  cumulative energy \<open>E i\<close>, the per-species value \<open>V i\<close> for the species
  \<open>0 .. length pKas\<close>, and the log-sum-exp reduction.
\<close>

definition cumulative_energy :: "thermo \<Rightarrow> compound \<Rightarrow> real \<Rightarrow> nat \<Rightarrow> real" where
  "cumulative_energy th c T i = - sum_list (take i (pKas c)) * (R th * T * ln 10)"

definition species_energy :: "thermo \<Rightarrow> compound \<Rightarrow> real \<Rightarrow> real \<Rightarrow> real \<Rightarrow> nat \<Rightarrow> real" where
  "species_energy th c pH I T i =
     cumulative_energy th c T i
       + real_of_int (nHs c ! i) * (R th * T * ln 10 * pH + debye_huckel th (I, T))
       - (real_of_int (zs c ! i)) ^ 2 * debye_huckel th (I, T)"

definition core_reference :: "thermo \<Rightarrow> compound \<Rightarrow> real \<Rightarrow> real \<Rightarrow> real \<Rightarrow> real" where
  "core_reference th c pH I T =
     (if inchi c = None then 0
      else - (R th * T) *
             logsumexp th (map (\<lambda>i. species_energy th c pH I T i / (- (R th * T)))
                               [0 ..< length (pKas c) + 1]))"

text \<open>The ladder-shape invariant: one hydrogen count and one charge per species.\<close>

definition ladder_shape :: "compound \<Rightarrow> bool" where
  "ladder_shape c \<longleftrightarrow>
     length (nHs c) = length (pKas c) + 1 \<and> length (zs c) = length (pKas c) + 1"

text \<open>
  The difference of the two public transforms at one condition, when both return.
\<close>

definition transform_difference :: "thermo \<Rightarrow> compound \<Rightarrow> real \<Rightarrow> real \<Rightarrow> real \<Rightarrow> real option" where
  "transform_difference th c pH I T =
     (case (transform th c pH I T, transform_neutral th c pH I T) of
        (Inr a, Inr b) \<Rightarrow> Some (a - b)
      | _ \<Rightarrow> None)"

text \<open>
  The element symbols of one gathered composition, and the electron count of the
  specification: the sum over the elements of atomic number times count, minus the net
  charge.
\<close>

definition bag_keys :: "atom_bag option \<Rightarrow> string set" where
  "bag_keys b = (case b of None \<Rightarrow> {} | Some kv \<Rightarrow> set (map fst kv))"

definition electron_count :: "collab \<Rightarrow> atom_bag \<Rightarrow> int \<Rightarrow> int" where
  "electron_count env atom_bag charge =
     (\<Sum>(elem, count) \<leftarrow> atom_bag. GetAtomicNum env elem * count) - charge"

subsection \<open>Example data\<close>

text \<open>
  Concrete values at which the theorems below are instantiated: a thermodynamic
  environment, three compounds, and stub collaborators that know acetic acid (KEGG 33,
  one pKa of 4.54 inside the range, two candidates outside it), the proton (KEGG 80, on
  which the predictor fails), sodium acetate (KEGG 90001, whose major microspecies is the
  acetate ion alone) and an identity without a structure (KEGG 99999).
\<close>

definition example_thermo :: thermo where
  "example_thermo =
     \<lparr>R = 831 / 100000,
      debye_huckel = (\<lambda>(I, T). 3 * sqrt I / (1 + 16 / 10 * sqrt I)),
      logsumexp = (\<lambda>xs. ln (sum_list (map exp xs)))\<rparr>"

definition acetate :: compound where
  "acetate = Compound ''KEGG'' ''C00033'' (Some ''AcOH'') [454 / 100] 0 [3, 4] [- 1, 0]"

definition cation :: compound where
  "cation = Compound ''KEGG'' ''C01342'' (Some ''NH4+'') [925 / 100] 1 [3, 4] [0, 1]"

definition dication :: compound where
  "dication = Compound ''KEGG'' ''C00076'' (Some ''Ca+2'') [] 0 [0] [2]"

definition unknown_structure :: compound where
  "unknown_structure = Compound ''KEGG'' ''C99999'' None [] 0 [0] [0]"

definition lab :: collab where
  "lab =
     \<lparr>get_inchi = (\<lambda>cid. if cid = 33 then Inr (Some ''AcOH'')
                          else if cid = 80 then Inr (Some ''H+'')
                          else if cid = 90001 then Inr (Some ''NaOAc'')
                          else if cid = 99999 then Inr None
                          else Inl (ExternalError ''HTTP'')),
      GetDissociationConstants =
        (\<lambda>s. if s = ''AcOH'' then Inr ([454 / 100, - 2, 31 / 2], ''CC([O-])=O'')
             else if s = ''NaOAc'' then Inr ([454 / 100], ''CC([O-])=O'')
             else Inl ChemAxonError),
      smiles2inchi = (\<lambda>s. if s = ''CC([O-])=O'' then Some ''AcO-'' else None),
      get_atom_bag_and_charge_from_inchi =
        (\<lambda>s. if s = Some ''AcO-'' then Inr ([(''C'', 2), (''H'', 3), (''O'', 2)], - 1)
             else if s = Some ''AcOH'' then Inr ([(''C'', 2), (''H'', 4), (''O'', 2)], 0)
             else if s = Some ''NaOAc'' then Inr ([(''C'', 2), (''H'', 3), (''Na'', 1), (''O'', 2)], 0)
             else if s = Some ''H+'' then Inr ([(''H'', 1)], 1)
             else Inl (ExternalError ''cxcalc'')),
      GetAtomicNum = (\<lambda>e. if e = ''C'' then 6 else if e = ''H'' then 1 else if e = ''O'' then 8
                          else if e = ''Na'' then 11 else 0)\<rparr>"

definition empty_cache :: cache where
  "empty_cache = \<lparr>compound_dict = Map.empty, compound_ids = [], need_to_update_cache_file = False\<rparr>"

definition malformed_record :: persisted where
  "malformed_record =
     \<lparr>d_database = ''KEGG'', d_id = ''C00033'', d_inchi = Some ''AcOH'', d_pKas = [454 / 100],
      d_majorMSpH7 = 0, d_nHs = [3, 4, 5], d_zs = []\<rparr>"

text \<open>The caches that the stub collaborators produce from the empty cache.\<close>

definition cache_with_acetate :: cache where
  "cache_with_acetate =
     \<lparr>compound_dict = [''C00033'' \<mapsto> acetate], compound_ids = [],
      need_to_update_cache_file = True\<rparr>"

definition cache_with_proton :: cache where
  "cache_with_proton =
     \<lparr>compound_dict = [''C00080'' \<mapsto> Compound ''KEGG'' ''C00080'' (Some ''H+'') [] 0 [1] [1]],
      compound_ids = [], need_to_update_cache_file = True\<rparr>"


section \<open>Properties of the transforms\<close>

subsection \<open>Running sums, slices and positions\<close>

lemma cumsum_from_eq:
  "cumsum_from acc xs = map (\<lambda>i. acc + sum_list (take (Suc i) xs)) [0 ..< length xs]"
proof (induction xs arbitrary: acc)
  case Nil
  show ?case by simp
next
  case (Cons x xs)
  have "map (\<lambda>i. acc + sum_list (take (Suc i) (x # xs))) [0 ..< Suc (length xs)]
        = (acc + x) # map (\<lambda>i. acc + x + sum_list (take (Suc i) xs)) [0 ..< length xs]"
    by (simp add: map_upt_Suc add.assoc del: upt_Suc)
  then show ?case using Cons.IH [of "acc + x"] by simp
qed

lemma cumsum_zero_Cons:
  "cumsum (0 # xs) = map (\<lambda>i. sum_list (take i xs)) [0 ..< Suc (length xs)]"
proof -
  have "cumsum (0 # xs) = 0 # map (\<lambda>i. sum_list (take (Suc i) xs)) [0 ..< length xs]"
    by (simp add: cumsum_def) (simp add: cumsum_from_eq)
  also have "\<dots> = map (\<lambda>i. sum_list (take i xs)) [0 ..< Suc (length xs)]"
    by (subst map_upt_Suc) simp
  finally show ?thesis .
qed

lemma zip3_map_upt:
  "length bs = n \<Longrightarrow> length cs = n \<Longrightarrow>
   zip (map f [0 ..< n]) (zip bs cs) = map (\<lambda>i. (f i, bs ! i, cs ! i)) [0 ..< n]"
  by (rule nth_equalityI) simp_all

lemma index_of_None_iff: "index_of xs v = None \<longleftrightarrow> v \<notin> set xs"
  by (induction xs) auto

lemma index_of_SomeD:
  "index_of xs v = Some i \<Longrightarrow> i < length xs \<and> xs ! i = v \<and> (\<forall>j < i. xs ! j \<noteq> v)"
proof (induction xs arbitrary: i)
  case Nil
  then show ?case by simp
next
  case (Cons x xs)
  show ?case
  proof (cases "x = v")
    case True
    with Cons.prems show ?thesis by simp
  next
    case False
    with Cons.prems obtain k where k: "index_of xs v = Some k" "i = Suc k" by auto
    from Cons.IH [OF k(1)] False k(2) show ?thesis
      by (auto simp: nth_Cons split: nat.splits)
  qed
qed

lemma index_of_first:
  assumes "i < length xs" and "xs ! i = v" and "\<forall>j < i. xs ! j \<noteq> v"
  shows "index_of xs v = Some i"
proof -
  have "index_of xs v \<noteq> None"
    using assms(1,2) by (auto simp: index_of_None_iff in_set_conv_nth)
  then obtain k where k: "index_of xs v = Some k" by auto
  note kD = index_of_SomeD [OF k]
  have "\<not> i < k" using kD assms(2) by blast
  moreover have "\<not> k < i" using kD assms(3) by blast
  ultimately have "i = k" by simp
  with k show ?thesis by simp
qed

lemma sum_slice_to:
  "0 \<le> k \<or> xs = [] \<Longrightarrow> sum_list (slice_to xs k) = sum_list (take (nat k) xs)"
  by (auto simp: slice_to_def)

subsection \<open>The shared term\<close>

lemma transform_core_absent: "inchi c = None \<Longrightarrow> transform_core th c pH I T = Inr 0"
  by (simp add: transform_core_def)

lemma dG0s_eq:
  "(if ps = [] then [0] else map (\<lambda>s. - s * r * T * ln 10) (cumsum (0 # ps)))
   = map (\<lambda>i. - sum_list (take i ps) * (r * T * ln 10)) [0 ..< Suc (length ps)]"
proof (cases "ps = []")
  case True
  then show ?thesis by simp
next
  case False
  then show ?thesis by (simp add: cumsum_zero_Cons algebra_simps del: upt_Suc)
qed

lemma transform_core_present:
  assumes "inchi c \<noteq> None" and "ladder_shape c"
  shows "transform_core th c pH I T = Inr (core_reference th c pH I T)"
proof -
  let ?n = "Suc (length (pKas c))"
  let ?DH = "debye_huckel th (I, T)"
  have len: "length (map real_of_int (nHs c)) = ?n" "length (map real_of_int (zs c)) = ?n"
    using assms(2) by (simp_all add: ladder_shape_def)
  have stack: "vstack3_T (map (cumulative_energy th c T) [0 ..< ?n])
                  (map real_of_int (nHs c)) (map real_of_int (zs c))
        = Inr (map (\<lambda>i. (cumulative_energy th c T i, real_of_int (nHs c ! i), real_of_int (zs c ! i)))
                 [0 ..< ?n])"
  proof -
    have "zip (map (cumulative_energy th c T) [0 ..< ?n])
              (zip (map real_of_int (nHs c)) (map real_of_int (zs c)))
          = map (\<lambda>i. (cumulative_energy th c T i, map real_of_int (nHs c) ! i, map real_of_int (zs c) ! i))
              [0 ..< ?n]"
      by (rule zip3_map_upt [OF len])
    also have "\<dots> = map (\<lambda>i. (cumulative_energy th c T i, real_of_int (nHs c ! i), real_of_int (zs c ! i)))
              [0 ..< ?n]"
      using len by (intro map_cong refl) auto
    finally show ?thesis using len by (simp add: vstack3_T_def del: upt_Suc)
  qed
  have dG0s: "(if pKas c = [] then [0]
               else map (\<lambda>s. - s * R th * T * ln 10) (cumsum (0 # pKas c)))
              = map (cumulative_energy th c T) [0 ..< ?n]"
    unfolding dG0s_eq by (simp add: cumulative_energy_def del: upt_Suc)
  from assms(1) obtain s where s: "inchi c = Some s" by auto
  have "transform_core th c pH I T
        = Inr (- R th * T * logsumexp th (map (\<lambda>v. v / (- R th * T))
            (map (\<lambda>(g, n, z). g + n * (R th * T * ln 10 * pH + ?DH) - z ^ 2 * ?DH)
               (map (\<lambda>i. (cumulative_energy th c T i, real_of_int (nHs c ! i), real_of_int (zs c ! i)))
                 [0 ..< ?n]))))"
    unfolding transform_core_def Let_def dG0s stack by (simp add: s del: upt_Suc)
  also have "\<dots> = Inr (core_reference th c pH I T)"
    by (simp add: s core_reference_def species_energy_def o_def del: upt_Suc)
  finally show ?thesis .
qed

lemma core_total:
  "inchi c = None \<or> ladder_shape c \<Longrightarrow>
   transform_core th c pH I T = Inr (core_reference th c pH I T)"
  using transform_core_present [of c th pH I T] transform_core_absent [of c th pH I T]
  by (auto simp: core_reference_def)

lemma transform_value:
  assumes "inchi c = None \<or> ladder_shape c" and "0 \<le> majorMSpH7 c \<or> pKas c = []"
  shows "transform th c pH I T =
           Inr (baseOffset th c (majorMSpH7 c) T + core_reference th c pH I T)"
  using core_total [OF assms(1), of th pH I T] assms(2)
  by (simp add: transform_def baseOffset_def sum_slice_to mult.assoc add.commute)

lemma transform_neutral_value:
  assumes "inchi c = None \<or> ladder_shape c" and "index_of (zs c) 0 = Some k"
  shows "transform_neutral th c pH I T =
           Inr (baseOffset th c (int k) T + core_reference th c pH I T)"
  using core_total [OF assms(1), of th pH I T] assms(2)
  by (simp add: transform_neutral_def baseOffset_def sum_slice_to mult.assoc add.commute)

lemma transform_difference_value:
  assumes "inchi c = None \<or> ladder_shape c" and "0 \<le> majorMSpH7 c \<or> pKas c = []"
    and "index_of (zs c) 0 = Some k"
  shows "transform_difference th c pH I T =
           Some (baseOffset th c (majorMSpH7 c) T - baseOffset th c (int k) T)"
  by (simp add: transform_difference_def transform_value [OF assms(1,2)]
        transform_neutral_value [OF assms(1,3)])

lemma ladder_shape_examples:
  "ladder_shape acetate" "ladder_shape cation" "ladder_shape dication"
  by (simp_all add: ladder_shape_def acetate_def cation_def dication_def Compound_def)

subsection \<open>Claims about the transforms\<close>

text \<open>
  C1. For a compound whose \<open>majorMSpH7\<close> is not negative (or whose \<open>pKas\<close> is empty),
  \<open>transform\<close> returns \<open>baseOffset majorMSpH7\<close> plus the shared term: it adds exactly the
  sum of the first \<open>majorMSpH7\<close> pKas times \<open>R * T * ln 10\<close>; where the shared term raises,
  so does \<open>transform\<close>.
\<close>

theorem transform_is_baseOffset_plus_core:
  assumes "0 \<le> majorMSpH7 c \<or> pKas c = []"
  shows "transform th c pH I T =
           (case transform_core th c pH I T of
              Inl e \<Rightarrow> Inl e
            | Inr v \<Rightarrow> Inr (baseOffset th c (majorMSpH7 c) T + v))"
  using assms
  by (simp add: transform_def baseOffset_def sum_slice_to mult.assoc add.commute split: sum.splits)

theorem transform_is_baseOffset_plus_core_witness:
  "(0 \<le> majorMSpH7 cation \<or> pKas cation = []) \<and>
   transform_core example_thermo cation 7 (1 / 10) 298 =
     Inr (core_reference example_thermo cation 7 (1 / 10) 298) \<and>
   transform example_thermo cation 7 (1 / 10) 298 =
     Inr (925 / 100 * (831 / 100000 * 298 * ln 10)
            + core_reference example_thermo cation 7 (1 / 10) 298)"
proof -
  have major: "0 \<le> majorMSpH7 cation \<or> pKas cation = []"
    by (simp add: cation_def Compound_def)
  have core: "transform_core example_thermo cation 7 (1 / 10) 298 =
                Inr (core_reference example_thermo cation 7 (1 / 10) 298)"
    using ladder_shape_examples(2) by (simp add: core_total)
  have base: "baseOffset example_thermo cation (majorMSpH7 cation) 298 =
                925 / 100 * (831 / 100000 * 298 * ln 10)"
    by (simp add: cation_def Compound_def baseOffset_def example_thermo_def)
  show ?thesis
    using transform_is_baseOffset_plus_core [OF major, of example_thermo 7 "1 / 10" 298]
    by (simp add: major core base)
qed

text \<open>
  C2. The shared term \<open>transform_core\<close> is exactly 0 when the structure is absent, for
  every pH, I and T. With a structure and one hydrogen count and one charge per species,
  it is the reference definition: minus \<open>R * T\<close> times the log-sum-exp of
  \<open>V i / (- R * T)\<close> over the species \<open>i = 0 .. length pKas\<close>, where
  \<open>V i = E i + nHs i * (R * T * ln 10 * pH + D) - (zs i)\<^sup>2 * D\<close>, \<open>D\<close> is the
  Debye-Hueckel term and \<open>E i\<close> is minus the sum of the first \<open>i\<close> pKas times
  \<open>R * T * ln 10\<close>.
\<close>

theorem transform_core_is_reference:
  "(inchi c = None \<longrightarrow> transform_core th c pH I T = Inr 0) \<and>
   (inchi c \<noteq> None \<and> ladder_shape c \<longrightarrow>
      transform_core th c pH I T = Inr (core_reference th c pH I T))"
  using transform_core_present [of c th pH I T] transform_core_absent [of c th pH I T]
  by blast

theorem transform_core_is_reference_witness:
  "(inchi unknown_structure = None \<and>
    transform_core example_thermo unknown_structure 7 (1 / 10) 298 = Inr 0) \<and>
   (inchi acetate \<noteq> None \<and> ladder_shape acetate \<and>
    transform_core example_thermo acetate 7 (1 / 10) 298 =
      Inr (core_reference example_thermo acetate 7 (1 / 10) 298))"
  using transform_core_is_reference [of unknown_structure example_thermo 7 "1 / 10" 298]
    transform_core_is_reference [of acetate example_thermo 7 "1 / 10" 298]
    ladder_shape_examples(1)
  by (simp add: unknown_structure_def acetate_def Compound_def)

text \<open>
  C3. For a compound with an absent structure or with one hydrogen count and one charge
  per species, \<open>transform_neutral\<close> fails if and only if no entry of \<open>zs\<close> is 0, and then
  with the ValueError that names the compound; when \<open>i\<close> is the first position of a 0 in
  \<open>zs\<close> it returns \<open>baseOffset i\<close> plus the shared term. The function takes the compound
  as a value and returns only the result or the error: no state is written.
\<close>

theorem transform_neutral_zero_charge:
  assumes "inchi c = None \<or> ladder_shape c"
  shows "((\<exists>e. transform_neutral th c pH I T = Inl e) \<longleftrightarrow> 0 \<notin> set (zs c)) \<and>
         (0 \<notin> set (zs c) \<longrightarrow>
            transform_neutral th c pH I T = Inl (ValueError (no_zero_charge_msg c))) \<and>
         (\<forall>i. i < length (zs c) \<and> zs c ! i = 0 \<and> (\<forall>j < i. zs c ! j \<noteq> 0) \<longrightarrow>
            transform_neutral th c pH I T =
              Inr (baseOffset th c (int i) T + core_reference th c pH I T))"
proof (cases "index_of (zs c) 0")
  case None
  then have "0 \<notin> set (zs c)" by (simp add: index_of_None_iff)
  moreover have "transform_neutral th c pH I T = Inl (ValueError (no_zero_charge_msg c))"
    using None by (simp add: transform_neutral_def)
  ultimately show ?thesis by (auto simp: in_set_conv_nth)
next
  case (Some k)
  note k = index_of_SomeD [OF Some]
  have val: "transform_neutral th c pH I T =
               Inr (baseOffset th c (int k) T + core_reference th c pH I T)"
    by (rule transform_neutral_value [OF assms Some])
  have uniq: "i = k" if "i < length (zs c)" "zs c ! i = 0" "\<forall>j < i. zs c ! j \<noteq> 0" for i
    using index_of_first [OF that] Some by simp
  have "0 \<in> set (zs c)" using k by (auto simp: in_set_conv_nth)
  with val uniq show ?thesis by auto
qed

theorem transform_neutral_zero_charge_witness:
  "(inchi dication = None \<or> ladder_shape dication) \<and> 0 \<notin> set (zs dication) \<and>
   transform_neutral example_thermo dication 7 (1 / 10) 298 =
     Inl (ValueError ''The compound (C00076) does not have a microspecies with 0 charge'') \<and>
   (inchi acetate = None \<or> ladder_shape acetate) \<and>
   (1::nat) < length (zs acetate) \<and> zs acetate ! 1 = 0 \<and> zs acetate ! 0 = - 1 \<and>
   transform_neutral example_thermo acetate 7 (1 / 10) 298 =
     Inr (baseOffset example_thermo acetate 1 298
            + core_reference example_thermo acetate 7 (1 / 10) 298)"
proof -
  have shape_d: "inchi dication = None \<or> ladder_shape dication"
    and shape_a: "inchi acetate = None \<or> ladder_shape acetate"
    using ladder_shape_examples by simp_all
  have nz: "0 \<notin> set (zs dication)"
    by (simp add: dication_def Compound_def)
  have z: "(1::nat) < length (zs acetate) \<and> zs acetate ! 1 = 0 \<and> (\<forall>j < 1. zs acetate ! j \<noteq> 0)"
    by (simp add: acetate_def Compound_def)
  have d: "transform_neutral example_thermo dication 7 (1 / 10) 298 =
             Inl (ValueError ''The compound (C00076) does not have a microspecies with 0 charge'')"
    using transform_neutral_zero_charge [OF shape_d, of example_thermo 7 "1 / 10" 298] nz
    by (simp add: no_zero_charge_msg_def dication_def Compound_def)
  have a: "transform_neutral example_thermo acetate 7 (1 / 10) 298 =
             Inr (baseOffset example_thermo acetate (int 1) 298
                    + core_reference example_thermo acetate 7 (1 / 10) 298)"
    using transform_neutral_zero_charge [OF shape_a, of example_thermo 7 "1 / 10" 298] z
    by blast
  have z0: "zs acetate ! 0 = - 1"
    by (simp add: acetate_def Compound_def)
  show ?thesis using shape_d shape_a nz z z0 d a by simp
qed

text \<open>
  C9, as stated, makes the difference of the two transforms independent of the
  temperature. It is not: for the ammonium ladder (one pKa of 9.25, the neutral species
  at position 0, the major species at position 1) the difference is
  \<open>9.25 * R * T * ln 10\<close>, which changes between 298 K and 300 K.
\<close>

theorem transform_difference_depends_on_T:
  "transform_difference example_thermo cation 7 (1 / 10) 298
     = Some (925 / 100 * (831 / 100000 * 298 * ln 10)) \<and>
   transform_difference example_thermo cation 7 (1 / 10) 300
     = Some (925 / 100 * (831 / 100000 * 300 * ln 10)) \<and>
   transform_difference example_thermo cation 7 (1 / 10) 298
     \<noteq> transform_difference example_thermo cation 7 (1 / 10) 300"
proof -
  have shape: "inchi cation = None \<or> ladder_shape cation"
    using ladder_shape_examples(2) by simp
  have major: "0 \<le> majorMSpH7 cation \<or> pKas cation = []"
    by (simp add: cation_def Compound_def)
  have zero: "index_of (zs cation) 0 = Some 0"
    by (simp add: cation_def Compound_def)
  have ln10: "ln (10::real) \<noteq> 0" by simp
  have "transform_difference example_thermo cation 7 (1 / 10) T
          = Some (925 / 100 * (831 / 100000 * T * ln 10))" for T
    unfolding transform_difference_value [OF shape major zero]
    by (simp add: baseOffset_def cation_def Compound_def example_thermo_def)
  then show ?thesis using ln10 by simp
qed

text \<open>
  C9, amended. For a compound with an absent structure or a well-shaped ladder, a
  non-negative \<open>majorMSpH7\<close> (or no pKas) and a first zero charge at position \<open>i\<close>, both
  transforms return and their difference is \<open>baseOffset majorMSpH7 - baseOffset i\<close>, that
  is the difference of the two partial sums of pKas times \<open>R * T * ln 10\<close>: the same for
  every pH and ionic strength, proportional to the temperature.
\<close>

theorem transform_minus_transform_neutral:
  assumes "inchi c = None \<or> ladder_shape c"
    and "0 \<le> majorMSpH7 c \<or> pKas c = []"
    and "i < length (zs c)" and "zs c ! i = 0" and "\<forall>j < i. zs c ! j \<noteq> 0"
  shows "transform_difference th c pH I T =
           Some (baseOffset th c (majorMSpH7 c) T - baseOffset th c (int i) T) \<and>
         transform_difference th c pH I T =
           Some ((sum_list (take (nat (majorMSpH7 c)) (pKas c)) - sum_list (take i (pKas c)))
                   * (R th * T * ln 10)) \<and>
         transform_difference th c pH' I' T = transform_difference th c pH I T"
proof -
  have k: "index_of (zs c) 0 = Some i"
    by (rule index_of_first [OF assms(3-5)])
  show ?thesis
    unfolding transform_difference_value [OF assms(1,2) k]
    by (simp add: baseOffset_def algebra_simps)
qed

theorem transform_minus_transform_neutral_witness:
  "(inchi acetate = None \<or> ladder_shape acetate) \<and>
   (0 \<le> majorMSpH7 acetate \<or> pKas acetate = []) \<and>
   (1::nat) < length (zs acetate) \<and> zs acetate ! 1 = 0 \<and> zs acetate ! 0 = - 1 \<and>
   transform_difference example_thermo acetate 7 (1 / 10) 298
     = Some (- (454 / 100) * (831 / 100000 * 298 * ln 10)) \<and>
   transform_difference example_thermo acetate 3 (1 / 4) 298
     = transform_difference example_thermo acetate 7 (1 / 10) 298"
  using transform_minus_transform_neutral
          [of acetate 1 example_thermo 7 "1 / 10" 298 3 "1 / 4"]
    ladder_shape_examples(1)
  by (simp add: acetate_def Compound_def baseOffset_def example_thermo_def)

section \<open>Properties of the ladder derivation\<close>

lemma predict_success:
  "GetDissociationConstants env s = Inr (raw, major_ms) \<Longrightarrow>
   predict_or_fall_back env s moltype =
     (Inr (rev (sort (filter (\<lambda>pka. 0 < pka \<and> pka < 14) raw)), smiles2inchi env major_ms),
      [Predictor s, Converter major_ms])"
  by (simp add: predict_or_fall_back_def MIN_PH_def MAX_PH_def)

lemma get_species_pka_success:
  assumes "GetDissociationConstants env s = Inr (raw, major_ms)"
    and "get_atom_bag_and_charge_from_inchi env (smiles2inchi env major_ms) = Inr (atom_bag, charge)"
  shows "get_species_pka env (Some s) moltype =
     (let ps = rev (sort (filter (\<lambda>pka. 0 < pka \<and> pka < 14) raw));
          m = int (length (filter (\<lambda>pka. 7 < pka) ps))
      in (Inr (ps, m,
               map (\<lambda>i. int i - m + dict_get atom_bag ''H'' 0) [0 ..< Suc (length ps)],
               map (\<lambda>i. int i - m + charge) [0 ..< Suc (length ps)]),
          [Predictor s, Converter major_ms, Extractor (smiles2inchi env major_ms)]))"
proof (cases "filter (\<lambda>pka. 0 < pka \<and> pka < 14) raw = []")
  case True
  then show ?thesis
    using assms(2)
    by (simp add: get_species_pka_def predict_success [OF assms(1)] Let_def del: upt_Suc)
next
  case False
  then show ?thesis
    using assms(2)
    by (simp add: get_species_pka_def predict_success [OF assms(1)] Let_def del: upt_Suc)
qed

text \<open>
  C4. When the predictor returns candidate pKas \<open>raw\<close> and a major microspecies whose
  composition and charge the extractor returns, \<open>get_species_pka\<close> returns: the candidates
  strictly between 0 and 14, each as often as in \<open>raw\<close>, in descending order; as
  \<open>majorMSpH7\<close> the number of the kept pKas above 7 (0 when none is kept); and, for every
  \<open>i\<close> from 0 to the number of pKas, \<open>nHs i = (i - majorMSpH7) + H\<close> and
  \<open>zs i = (i - majorMSpH7) + charge\<close>, where \<open>H\<close> is the hydrogen count of the major
  microspecies (0 when its composition has no hydrogen).
\<close>

theorem get_species_pka_ladder:
  assumes "GetDissociationConstants env s = Inr (raw, major_ms)"
    and "get_atom_bag_and_charge_from_inchi env (smiles2inchi env major_ms) = Inr (atom_bag, charge)"
  shows "\<exists>ps m hs cs calls.
           get_species_pka env (Some s) moltype = (Inr (ps, m, hs, cs), calls) \<and>
           mset ps = mset (filter (\<lambda>pka. 0 < pka \<and> pka < 14) raw) \<and>
           (\<forall>p \<in> set ps. 0 < p \<and> p < 14) \<and> sorted (rev ps) \<and>
           m = int (length (filter (\<lambda>pka. 7 < pka) ps)) \<and>
           (ps = [] \<longrightarrow> m = 0) \<and>
           length hs = length ps + 1 \<and> length cs = length ps + 1 \<and>
           (\<forall>i \<le> length ps.
              hs ! i = (int i - m) + dict_get atom_bag ''H'' 0 \<and>
              cs ! i = (int i - m) + charge)"
proof -
  let ?ps = "rev (sort (filter (\<lambda>pka. 0 < pka \<and> pka < 14) raw))"
  let ?m = "int (length (filter (\<lambda>pka. 7 < pka) ?ps))"
  let ?hs = "map (\<lambda>i. int i - ?m + dict_get atom_bag ''H'' 0) [0 ..< Suc (length ?ps)]"
  let ?cs = "map (\<lambda>i. int i - ?m + charge) [0 ..< Suc (length ?ps)]"
  have run: "get_species_pka env (Some s) moltype =
               (Inr (?ps, ?m, ?hs, ?cs),
                [Predictor s, Converter major_ms, Extractor (smiles2inchi env major_ms)])"
    using get_species_pka_success [OF assms, of moltype] by (simp add: Let_def)
  have 1: "mset ?ps = mset (filter (\<lambda>pka. 0 < pka \<and> pka < 14) raw)" by simp
  have 2: "sorted (rev ?ps)" by simp
  have 3: "length ?hs = length ?ps + 1" "length ?cs = length ?ps + 1" by simp_all
  have 4: "?hs ! i = (int i - ?m) + dict_get atom_bag ''H'' 0 \<and> ?cs ! i = (int i - ?m) + charge"
    if "i \<le> length ?ps" for i
  proof -
    from that have "i < length [0 ..< Suc (length ?ps)]" by simp
    then show ?thesis by (simp only: nth_map) (simp del: upt_Suc)
  qed
  have 5: "?ps = [] \<longrightarrow> ?m = 0" by simp
  have 6: "\<forall>p \<in> set ?ps. 0 < p \<and> p < 14" by simp
  show ?thesis
    apply (rule exI [of _ ?ps], rule exI [of _ ?m], rule exI [of _ ?hs], rule exI [of _ ?cs])
    apply (rule exI)
    using run 1 2 3 4 5 6 by blast
qed


lemma lab_AcOH:
  "GetDissociationConstants lab ''AcOH'' = Inr ([454 / 100, - 2, 31 / 2], ''CC([O-])=O'')"
  "get_atom_bag_and_charge_from_inchi lab (smiles2inchi lab ''CC([O-])=O'')
     = Inr ([(''C'', 2), (''H'', 3), (''O'', 2)], - 1)"
  by (simp_all add: lab_def)

theorem get_species_pka_ladder_witness:
  "GetDissociationConstants lab ''AcOH'' = Inr ([454 / 100, - 2, 31 / 2], ''CC([O-])=O'') \<and>
   get_atom_bag_and_charge_from_inchi lab (smiles2inchi lab ''CC([O-])=O'')
     = Inr ([(''C'', 2), (''H'', 3), (''O'', 2)], - 1) \<and>
   (\<exists>calls. get_species_pka lab (Some ''AcOH'') ''inchi''
      = (Inr ([454 / 100], 0, [3, 4], [- 1, 0]), calls))"
proof -
  from get_species_pka_ladder [OF lab_AcOH, of "''inchi''"]
  obtain ps m hs cs calls where
    run: "get_species_pka lab (Some ''AcOH'') ''inchi'' = (Inr (ps, m, hs, cs), calls)"
    and ps: "mset ps = mset (filter (\<lambda>pka. 0 < pka \<and> pka < 14) [454 / 100, - 2, 31 / 2])"
    and m: "m = int (length (filter (\<lambda>pka. 7 < pka) ps))"
    and len: "length hs = length ps + 1" "length cs = length ps + 1"
    and nth: "\<forall>i \<le> length ps. hs ! i = (int i - m) + dict_get [(''C'', 2), (''H'', 3), (''O'', 2)] ''H'' 0
                \<and> cs ! i = (int i - m) + (- 1)"
    by blast
  from ps have ps': "ps = [454 / 100]" by simp
  with m have m': "m = 0" by simp
  from nth ps' m' have "hs ! 0 = 3 \<and> cs ! 0 = - 1" "hs ! 1 = 4 \<and> cs ! 1 = 0"
    by (simp_all add: dict_get_def)
  moreover from len ps' have "length hs = 2" "length cs = 2" by simp_all
  ultimately have "hs = [3, 4]" "cs = [- 1, 0]"
    by (auto simp: list_eq_iff_nth_eq less_Suc_eq numeral_2_eq_2)
  with run ps' m' lab_AcOH show ?thesis by blast
qed

lemma replicate_num: "replicate (numeral k) x = x # replicate (pred_numeral k) x"
  by (simp add: numeral_eq_Suc)

lemma format_cid_examples:
  "format_cid 33 = ''C00033''" "format_cid 80 = ''C00080''"
  "format_cid 90001 = ''C90001''" "format_cid 99999 = ''C99999''"
  by (simp_all add: format_cid_def format_05d_def digits_of.simps digit_char_def replicate_num)

section \<open>Properties of the cache\<close>

subsection \<open>Construction from KEGG\<close>

lemma from_kegg_degenerate:
  "get_inchi env cid = Inr i \<Longrightarrow> cid = 80 \<or> i = None \<Longrightarrow>
   from_kegg env cid = (Inr (Compound ''KEGG'' (format_cid cid) i [] 0 [0] [0]), [Resolver cid])"
  by (auto simp: from_kegg_def)

lemma get_species_pka_None: "get_species_pka env None moltype = (Inr ([], - 1, [], []), [])"
  by (simp add: get_species_pka_def)

lemma predict_calls:
  "predict_or_fall_back env s moltype = (r, calls) \<Longrightarrow>
   filter is_Resolver calls = [] \<and> length (filter is_Predictor calls) \<le> 1"
  by (auto simp: predict_or_fall_back_def split: sum.splits exn.splits if_splits prod.splits)

lemma get_species_pka_calls:
  "get_species_pka env s moltype = (r, calls) \<Longrightarrow>
   filter is_Resolver calls = [] \<and> length (filter is_Predictor calls) \<le> 1"
  by (auto simp: get_species_pka_def Let_def split: option.splits sum.splits prod.splits
        dest!: predict_calls)

lemma from_kegg_result:
  assumes "from_kegg env cid = (Inr c, calls)"
  shows "compound_id c = format_cid cid \<and> length (filter is_Resolver calls) \<le> 1
         \<and> length (filter is_Predictor calls) \<le> 1"
  using assms
  by (auto simp: from_kegg_def Compound_def split: sum.splits if_splits prod.splits
        dest!: get_species_pka_calls)

text \<open>
  C5, amended. On the path of a cache miss (\<open>from_kegg\<close>), once the resolver has
  answered, an absent structure and the excluded identity 80 give the degenerate ladder:
  no pKas, \<open>majorMSpH7 = 0\<close>, \<open>nHs = [0]\<close>, \<open>zs = [0]\<close>. The derivation
  \<open>get_species_pka\<close> itself, called with an absent structure, returns no pKas,
  \<open>majorMSpH7 = - 1\<close> and empty \<open>nHs\<close> and \<open>zs\<close>.
\<close>

theorem degenerate_ladder_from_kegg:
  "(get_inchi env cid = Inr i \<and> (cid = 80 \<or> i = None) \<longrightarrow>
      from_kegg env cid =
        (Inr (Compound ''KEGG'' (format_cid cid) i [] 0 [0] [0]), [Resolver cid])) \<and>
   get_species_pka env None moltype = (Inr ([], - 1, [], []), [])"
  using from_kegg_degenerate [of env cid i] get_species_pka_None [of env moltype] by blast

theorem degenerate_ladder_from_kegg_witness:
  "get_inchi lab 80 = Inr (Some ''H+'') \<and>
   from_kegg lab 80 = (Inr (Compound ''KEGG'' ''C00080'' (Some ''H+'') [] 0 [0] [0]), [Resolver 80]) \<and>
   get_inchi lab 99999 = Inr None \<and>
   from_kegg lab 99999 = (Inr (Compound ''KEGG'' ''C99999'' None [] 0 [0] [0]), [Resolver 99999]) \<and>
   get_species_pka lab None ''inchi'' = (Inr ([], - 1, [], []), [])"
proof -
  have a: "get_inchi lab 80 = Inr (Some ''H+'')" and b: "get_inchi lab 99999 = Inr None"
    by (simp_all add: lab_def)
  show ?thesis
    using degenerate_ladder_from_kegg [of lab 80 "Some ''H+''" "''inchi''"]
      degenerate_ladder_from_kegg [of lab 99999 None "''inchi''"] a b
    by (simp add: format_cid_examples)
qed

text \<open>
  C5, as stated, promises the degenerate ladder on every derivation path that an absent
  structure can reach. A short row of the additions file has no structure; the
  reconciliation passes it to \<open>get_species_pka\<close> and stores what comes back:
  \<open>majorMSpH7 = - 1\<close>, \<open>nHs = []\<close>, \<open>zs = []\<close>.
\<close>

theorem absent_structure_not_degenerate:
  "fst (get_species_pka lab None ''inchi'') = Inr ([], - 1, [], []) \<and>
   fst (get_kegg_additions lab [(99999, None)] empty_cache) = Inr () \<and>
   map_option (\<lambda>c. (inchi c, pKas c, majorMSpH7 c, nHs c, zs c))
     (compound_dict (fst (snd (get_kegg_additions lab [(99999, None)] empty_cache))) ''C99999'')
     = Some (None, [], - 1, [], [])"
  by (simp add: get_species_pka_None format_cid_examples empty_cache_def Compound_def Let_def)

subsection \<open>Lookup\<close>

lemma get_kegg_compound_hit:
  "compound_dict ch (format_cid cid) = Some c \<Longrightarrow> get_kegg_compound env cid ch = (Inr c, ch, [])"
  by (simp add: get_kegg_compound_def Let_def)

lemma get_kegg_compound_result:
  assumes "get_kegg_compound env cid ch = (Inr c, ch', calls)"
  shows "compound_dict ch' (format_cid cid) = Some c"
    and "\<forall>k v. compound_dict ch k = Some v \<longrightarrow> compound_dict ch' k = Some v"
    and "length (filter is_Resolver calls) \<le> 1" and "length (filter is_Predictor calls) \<le> 1"
  using assms
  by (auto simp: get_kegg_compound_def Let_def split: option.splits sum.splits prod.splits
        dest!: from_kegg_result)

text \<open>
  C6. When the identity is in the mapping, \<open>get_kegg_compound\<close> returns the stored
  compound, makes no call to a collaborator and leaves the cache as it is (mapping and
  dirty flag). Hence after a first lookup that returned, a second lookup of the same
  identity returns the same compound with no call and no change; and one lookup makes at
  most one call to the resolver and at most one to the predictor.
\<close>

theorem get_kegg_compound_cached:
  "(compound_dict ch (format_cid cid) = Some c \<longrightarrow>
      get_kegg_compound env cid ch = (Inr c, ch, [])) \<and>
   (get_kegg_compound env cid ch = (Inr c, ch', calls) \<longrightarrow>
      get_kegg_compound env cid ch' = (Inr c, ch', []) \<and>
      length (filter is_Resolver calls) \<le> 1 \<and> length (filter is_Predictor calls) \<le> 1)"
  using get_kegg_compound_hit [of ch cid c env] get_kegg_compound_hit [of ch' cid c env]
    get_kegg_compound_result [of env cid ch c ch' calls]
  by blast

lemma lab_33:
  "get_kegg_compound lab 33 empty_cache =
     (Inr acetate, cache_with_acetate,
      [Resolver 33, Predictor ''AcOH'', Converter ''CC([O-])=O'', Extractor (Some ''AcO-'')])"
  by (simp add: get_kegg_compound_def from_kegg_def get_species_pka_def predict_or_fall_back_def
        Let_def lab_def MIN_PH_def MAX_PH_def dict_get_def empty_cache_def cache_with_acetate_def
        acetate_def Compound_def format_cid_examples)

theorem get_kegg_compound_cached_witness:
  "get_kegg_compound lab 33 empty_cache =
     (Inr acetate, cache_with_acetate,
      [Resolver 33, Predictor ''AcOH'', Converter ''CC([O-])=O'', Extractor (Some ''AcO-'')]) \<and>
   compound_dict cache_with_acetate (format_cid 33) = Some acetate \<and>
   get_kegg_compound lab 33 cache_with_acetate = (Inr acetate, cache_with_acetate, [])"
  using get_kegg_compound_cached [of empty_cache 33 acetate lab cache_with_acetate
          "[Resolver 33, Predictor ''AcOH'', Converter ''CC([O-])=O'', Extractor (Some ''AcO-'')]"]
    lab_33
  by (simp add: cache_with_acetate_def format_cid_examples)

subsection \<open>Loading the persisted records\<close>

lemma map_add_upd_front: "m(k \<mapsto> v) ++ n = m ++ ([k \<mapsto> v] ++ n)"
  by (rule ext) (simp add: map_add_def split: option.splits)

lemma load_records_fields:
  "compound_dict (load_records ds ch)
     = compound_dict ch ++ map_of (rev (map (\<lambda>d. (d_id d, from_json_dict d)) ds))"
  "compound_ids (load_records ds ch) = compound_ids ch @ map d_id ds"
  "need_to_update_cache_file (load_records ds ch) = need_to_update_cache_file ch"
proof (induction ds arbitrary: ch)
  case Nil
  {
    case 1 show ?case by simp
  next
    case 2 show ?case by simp
  next
    case 3 show ?case by simp
  }
next
  case (Cons d ds)
  {
    case 1
    have "compound_dict (load_records (d # ds) ch)
          = (compound_dict ch)(d_id d \<mapsto> from_json_dict d)
              ++ map_of (rev (map (\<lambda>d. (d_id d, from_json_dict d)) ds))"
      by (simp add: Cons.IH(1) fun_upd_def)
    also have "\<dots> = compound_dict ch
              ++ ([d_id d \<mapsto> from_json_dict d]
                    ++ map_of (rev (map (\<lambda>d. (d_id d, from_json_dict d)) ds)))"
      by (rule map_add_upd_front)
    also have "\<dots> = compound_dict ch
              ++ map_of (rev (map (\<lambda>d. (d_id d, from_json_dict d)) (d # ds)))"
      by simp
    finally show ?case .
  next
    case 2 show ?case by (simp add: Cons.IH(2))
  next
    case 3 show ?case by (simp add: Cons.IH(3))
  }
qed

lemma json_roundtrip: "to_json_dict (from_json_dict d) = d"
  by (simp add: to_json_dict_def from_json_dict_def Compound_def)

text \<open>
  C7, amended. \<open>load\<close> stores every persisted record as it is, under its id, and checks
  nothing: the mapping is exactly the records read (the last record of an id wins), the
  compound holds the seven fields of its record, no entry is dropped or derived again,
  and the dirty flag is untouched.
\<close>

theorem load_stores_records_unchecked:
  "compound_dict (load (Some ds) ch) = map_of (rev (map (\<lambda>d. (d_id d, from_json_dict d)) ds)) \<and>
   compound_ids (load (Some ds) ch) = map d_id ds \<and>
   need_to_update_cache_file (load (Some ds) ch) = need_to_update_cache_file ch \<and>
   to_json_dict (from_json_dict d) = d"
  by (simp add: load_def load_records_fields json_roundtrip)

theorem load_stores_records_unchecked_witness:
  "compound_dict (load (Some [malformed_record]) empty_cache) ''C00033''
     = Some (Compound ''KEGG'' ''C00033'' (Some ''AcOH'') [454 / 100] 0 [3, 4, 5] []) \<and>
   compound_ids (load (Some [malformed_record]) empty_cache) = [''C00033''] \<and>
   need_to_update_cache_file (load (Some [malformed_record]) empty_cache) = False"
  using load_stores_records_unchecked [of "[malformed_record]" empty_cache malformed_record]
  by (simp add: malformed_record_def from_json_dict_def empty_cache_def)

text \<open>
  C7, as stated, has \<open>load\<close> drop a record whose \<open>nHs\<close> or \<open>zs\<close> does not have one
  entry more than \<open>pKas\<close>. A record with one pKa, three hydrogen counts and no charge is
  stored unchanged.
\<close>

theorem load_keeps_malformed_record:
  "compound_dict (load (Some [malformed_record]) empty_cache) (d_id malformed_record)
     = Some (from_json_dict malformed_record) \<and>
   pKas (from_json_dict malformed_record) = [454 / 100] \<and>
   nHs (from_json_dict malformed_record) = [3, 4, 5] \<and>
   zs (from_json_dict malformed_record) = [] \<and>
   \<not> ladder_shape (from_json_dict malformed_record)"
  by (simp add: load_def malformed_record_def from_json_dict_def empty_cache_def Compound_def
        ladder_shape_def)

subsection \<open>Reconciliation with the additions\<close>

lemma get_kegg_additions_single:
  assumes "get_species_pka env s ''inchi'' = (Inr (ps, m, hs, cs), calls)"
    and "compound_dict ch (format_cid cid) = None \<or>
         (\<exists>old. compound_dict ch (format_cid cid) = Some old \<and> inchi old \<noteq> s)"
  shows "get_kegg_additions env [(cid, s)] ch =
           (Inr (),
            ch\<lparr>compound_dict :=
                 (compound_dict ch)(format_cid cid \<mapsto> Compound ''KEGG'' (format_cid cid) s ps m hs cs),
               need_to_update_cache_file := True\<rparr>,
            calls)"
  using assms by (auto simp: Let_def Compound_def)

text \<open>
  C10. For an additions row whose identity is in the exclusion set (KEGG 80) and which
  is missing from the cache or cached with another structure, the reconciliation stores
  the ladder that \<open>get_species_pka\<close> derives for the row's structure, with no exclusion
  and no check for an absent structure, and marks the cache dirty; \<open>from_kegg\<close> gives
  the same identity the degenerate ladder. The two paths differ whenever the derived
  ladder is not the degenerate one, as for the proton of the stub collaborators.
\<close>

theorem additions_bypass_exclusion_set:
  assumes "cid \<in> set [80]"
    and "get_species_pka env s ''inchi'' = (Inr (ps, m, hs, cs), calls)"
    and "compound_dict ch (format_cid cid) = None \<or>
         (\<exists>old. compound_dict ch (format_cid cid) = Some old \<and> inchi old \<noteq> s)"
    and "get_inchi env cid = Inr i"
  shows "get_kegg_additions env [(cid, s)] ch =
           (Inr (),
            ch\<lparr>compound_dict :=
                 (compound_dict ch)(format_cid cid \<mapsto> Compound ''KEGG'' (format_cid cid) s ps m hs cs),
               need_to_update_cache_file := True\<rparr>,
            calls) \<and>
         from_kegg env cid =
           (Inr (Compound ''KEGG'' (format_cid cid) i [] 0 [0] [0]), [Resolver cid])"
  using get_kegg_additions_single [OF assms(2,3)] from_kegg_degenerate [OF assms(4)] assms(1)
  by simp

lemma lab_proton:
  "get_species_pka lab (Some ''H+'') ''inchi''
     = (Inr ([], 0, [1], [1]), [Predictor ''H+'', Extractor (Some ''H+'')])"
  by (simp add: get_species_pka_def predict_or_fall_back_def Let_def lab_def dict_get_def)

theorem additions_bypass_exclusion_set_witness:
  "(80::int) \<in> set [80] \<and>
   get_species_pka lab (Some ''H+'') ''inchi''
     = (Inr ([], 0, [1], [1]), [Predictor ''H+'', Extractor (Some ''H+'')]) \<and>
   compound_dict empty_cache (format_cid 80) = None \<and>
   get_inchi lab 80 = Inr (Some ''H+'') \<and>
   get_kegg_additions lab [(80, Some ''H+'')] empty_cache
     = (Inr (), cache_with_proton, [Predictor ''H+'', Extractor (Some ''H+'')]) \<and>
   from_kegg lab 80 = (Inr (Compound ''KEGG'' ''C00080'' (Some ''H+'') [] 0 [0] [0]), [Resolver 80]) \<and>
   Compound ''KEGG'' ''C00080'' (Some ''H+'') [] 0 [1] [1]
     \<noteq> Compound ''KEGG'' ''C00080'' (Some ''H+'') [] 0 [0] [0]"
proof -
  have none: "compound_dict empty_cache (format_cid 80) = None
              \<or> (\<exists>old. compound_dict empty_cache (format_cid 80) = Some old \<and> inchi old \<noteq> Some ''H+'')"
    by (simp add: empty_cache_def)
  have res: "get_inchi lab 80 = Inr (Some ''H+'')" by (simp add: lab_def)
  have mem: "(80::int) \<in> set [80]" by simp
  show ?thesis
    using additions_bypass_exclusion_set [OF mem lab_proton none res] lab_proton res
    by (simp add: format_cid_examples empty_cache_def cache_with_proton_def Compound_def)
qed

subsection \<open>The elemental matrix\<close>

lemma dict_get_dict_set:
  "dict_get (dict_set d k v) k' dflt = (if k' = k then v else dict_get d k' dflt)"
  by (induction d k v rule: dict_set.induct) (auto simp: dict_get_def)

lemma keys_dict_set: "fst ` set (dict_set d k v) = insert k (fst ` set d)"
  by (induction d k v rule: dict_set.induct) auto

lemma get_atom_bag_with_electrons_None:
  "inchi c = None \<Longrightarrow> get_atom_bag_with_electrons env c = (Inr b, calls) \<Longrightarrow> b = None"
  by (simp add: get_atom_bag_with_electrons_def)

lemma get_atom_bag_with_electrons_Some:
  assumes "inchi c = Some s" and "get_atom_bag_with_electrons env c = (Inr b, calls)"
  shows "\<exists>atom_bag charge.
           get_atom_bag_and_charge_from_inchi env (Some s) = Inr (atom_bag, charge) \<and>
           b = Some (dict_set atom_bag ''e-'' (electron_count env atom_bag charge))"
proof -
  have "(\<Sum>(elem, count) \<leftarrow> kv. count * GetAtomicNum env elem)
        = (\<Sum>(elem, count) \<leftarrow> kv. GetAtomicNum env elem * count)" for kv :: atom_bag
    by (induction kv) (auto simp: mult.commute)
  then show ?thesis
    using assms
    by (auto simp: get_atom_bag_with_electrons_def electron_count_def Let_def
          split: sum.splits prod.splits)
qed

lemma get_kegg_compound_Inr:
  assumes "get_kegg_compound env cid ch = (Inr c, ch', calls)"
  shows "compound_dict ch' (format_cid cid) = Some c"
    and "\<forall>k v. compound_dict ch k = Some v \<longrightarrow> compound_dict ch' k = Some v"
  using get_kegg_compound_result [OF assms] by blast+

lemma gather_atom_bags_result:
  assumes "gather_atom_bags env cids ch E L = (Inr (E', L'), ch', calls)"
  shows "\<exists>bags. L' = L @ bags \<and> length bags = length cids \<and>
           E' = E \<union> \<Union> (set (map bag_keys bags)) \<and>
           (\<forall>k v. compound_dict ch k = Some v \<longrightarrow> compound_dict ch' k = Some v) \<and>
           (\<forall>i < length cids. \<exists>c calls'.
              compound_dict ch' (format_cid (cids ! i)) = Some c \<and>
              get_atom_bag_with_electrons env c = (Inr (bags ! i), calls'))"
  using assms
proof (induction cids arbitrary: ch E L calls)
  case Nil
  then show ?case by simp
next
  case (Cons cid cids)
  from Cons.prems obtain c ch1 calls1 b calls2 calls3 where
    look: "get_kegg_compound env cid ch = (Inr c, ch1, calls1)"
    and bag: "get_atom_bag_with_electrons env c = (Inr b, calls2)"
    and rest: "gather_atom_bags env cids ch1 (E \<union> bag_keys b) (L @ [b]) = (Inr (E', L'), ch', calls3)"
    by (auto simp: bag_keys_def Let_def split: prod.splits sum.splits option.splits)
  from Cons.IH [OF rest] obtain bags where
    L': "L' = (L @ [b]) @ bags" and len: "length bags = length cids"
    and E': "E' = (E \<union> bag_keys b) \<union> \<Union> (set (map bag_keys bags))"
    and ext: "\<forall>k v. compound_dict ch1 k = Some v \<longrightarrow> compound_dict ch' k = Some v"
    and rows: "\<forall>i < length cids. \<exists>c calls'.
                 compound_dict ch' (format_cid (cids ! i)) = Some c \<and>
                 get_atom_bag_with_electrons env c = (Inr (bags ! i), calls')"
    by blast
  note first = get_kegg_compound_Inr [OF look]
  have "\<exists>c calls'. compound_dict ch' (format_cid ((cid # cids) ! i)) = Some c \<and>
          get_atom_bag_with_electrons env c = (Inr ((b # bags) ! i), calls')"
    if "i < length (cid # cids)" for i
  proof (cases i)
    case 0
    then show ?thesis using first(1) ext bag by auto
  next
    case (Suc j)
    then show ?thesis using rows that by auto
  qed
  moreover have "L' = L @ (b # bags)" using L' by simp
  moreover have "length (b # bags) = length (cid # cids)" using len by simp
  moreover have "E' = E \<union> \<Union> (set (map bag_keys (b # bags)))" using E' by auto
  moreover have "\<forall>k v. compound_dict ch k = Some v \<longrightarrow> compound_dict ch' k = Some v"
    using first(2) ext by blast
  ultimately show ?case by blast
qed

lemma finite_bag_keys: "finite (\<Union> (set (map bag_keys bags)))"
  by (auto simp: bag_keys_def split: option.splits)

lemma ematrix_row_Some:
  "ematrix_row elements (Some (dict_set atom_bag ''e-'' e)) =
     map (\<lambda>elem. Num (real_of_int (if elem = ''e-'' then e else dict_get atom_bag elem 0)))
       elements"
  by (simp add: ematrix_row_def dict_get_dict_set)

text \<open>
  C8, amended. When \<open>get_kegg_ematrix\<close> returns, the column list is sorted, without
  repetition and without \<open>H\<close>, and the matrix has one row per identity. The compound of
  row \<open>i\<close> is the cache entry of the \<open>i\<close>-th identity. If it has no structure, its row
  is not-a-number in every column. If it has a structure, the extractor is applied to
  that stored structure (\<open>inchi\<close>), the column \<open>e-\<close> exists, every element of the
  composition other than \<open>H\<close> has a column, and the row holds in column \<open>e-\<close> the sum of
  atomic number times count minus the net charge of the stored structure, and in every
  other column the count of that element, 0 for an element the compound lacks.
\<close>

theorem get_kegg_ematrix_rows:
  assumes "get_kegg_ematrix env cids ch = (Inr (elements, Ematrix), ch', calls)"
  shows "sorted elements \<and> distinct elements \<and> ''H'' \<notin> set elements \<and>
         length Ematrix = length cids \<and>
         (\<forall>i < length cids. \<exists>c.
            compound_dict ch' (format_cid (cids ! i)) = Some c \<and>
            (case inchi c of
               None \<Rightarrow> Ematrix ! i = replicate (length elements) NaN
             | Some s \<Rightarrow>
                 (\<exists>atom_bag charge.
                    get_atom_bag_and_charge_from_inchi env (Some s) = Inr (atom_bag, charge) \<and>
                    ''e-'' \<in> set elements \<and>
                    (\<forall>elem \<in> set (map fst atom_bag). elem \<noteq> ''H'' \<longrightarrow> elem \<in> set elements) \<and>
                    Ematrix ! i =
                      map (\<lambda>elem. Num (real_of_int
                             (if elem = ''e-'' then electron_count env atom_bag charge
                              else dict_get atom_bag elem 0)))
                        elements)))"
proof -
  from assms obtain E bags where
    gather: "gather_atom_bags env cids ch {} [] = (Inr (E, bags), ch', calls)"
    and els: "elements = sorted_list_of_set (E - {''H''})"
    and M: "Ematrix = map (ematrix_row elements) bags"
    by (auto simp: get_kegg_ematrix_def Let_def split: prod.splits sum.splits)
  from gather_atom_bags_result [OF gather] have
    len: "length bags = length cids"
    and E: "E = \<Union> (set (map bag_keys bags))"
    and rows: "\<forall>i < length cids. \<exists>c calls'.
                 compound_dict ch' (format_cid (cids ! i)) = Some c \<and>
                 get_atom_bag_with_electrons env c = (Inr (bags ! i), calls')"
    by auto
  have fin: "finite (E - {''H''})" unfolding E using finite_bag_keys by blast
  have set_els: "set elements = E - {''H''}" using els fin by simp
  have 1: "sorted elements" "distinct elements" "''H'' \<notin> set elements"
    using els fin set_els by simp_all
  have 2: "length Ematrix = length cids" using M len by simp
  have 3: "\<exists>c. compound_dict ch' (format_cid (cids ! i)) = Some c \<and>
            (case inchi c of
               None \<Rightarrow> Ematrix ! i = replicate (length elements) NaN
             | Some s \<Rightarrow>
                 (\<exists>atom_bag charge.
                    get_atom_bag_and_charge_from_inchi env (Some s) = Inr (atom_bag, charge) \<and>
                    ''e-'' \<in> set elements \<and>
                    (\<forall>elem \<in> set (map fst atom_bag). elem \<noteq> ''H'' \<longrightarrow> elem \<in> set elements) \<and>
                    Ematrix ! i =
                      map (\<lambda>elem. Num (real_of_int
                             (if elem = ''e-'' then electron_count env atom_bag charge
                              else dict_get atom_bag elem 0)))
                        elements))"
    if i: "i < length cids" for i
  proof -
    from rows i obtain c calls' where
      c: "compound_dict ch' (format_cid (cids ! i)) = Some c"
      and b: "get_atom_bag_with_electrons env c = (Inr (bags ! i), calls')"
      by blast
    have row: "Ematrix ! i = ematrix_row elements (bags ! i)"
      using M i len by simp
    have mem: "bags ! i \<in> set bags" using i len by simp
    show ?thesis
    proof (cases "inchi c")
      case None
      from get_atom_bag_with_electrons_None [OF None b] row c None
      show ?thesis by (auto simp: ematrix_row_def)
    next
      case (Some s)
      from get_atom_bag_with_electrons_Some [OF Some b] obtain atom_bag charge where
        ex: "get_atom_bag_and_charge_from_inchi env (Some s) = Inr (atom_bag, charge)"
        and bi: "bags ! i = Some (dict_set atom_bag ''e-'' (electron_count env atom_bag charge))"
        by blast
      have "bag_keys (bags ! i) = insert ''e-'' (set (map fst atom_bag))"
        by (simp add: bi bag_keys_def keys_dict_set)
      moreover have "bag_keys (bags ! i) \<subseteq> E"
        unfolding E using mem by auto
      ultimately have keys: "insert ''e-'' (set (map fst atom_bag)) \<subseteq> E"
        by simp
      have e: "''e-'' \<in> set elements" using keys set_els by auto
      have others: "\<forall>elem \<in> set (map fst atom_bag). elem \<noteq> ''H'' \<longrightarrow> elem \<in> set elements"
        using keys set_els by auto
      have "Ematrix ! i =
              map (\<lambda>elem. Num (real_of_int
                     (if elem = ''e-'' then electron_count env atom_bag charge
                      else dict_get atom_bag elem 0)))
                elements"
        using row bi by (simp add: ematrix_row_Some)
      with c Some ex e others show ?thesis by auto
    qed
  qed
  from 1 2 3 show ?thesis by blast
qed

lemma fst_get_kegg_ematrix:
  "fst (get_kegg_ematrix env cids ch) =
     (case fst (gather_atom_bags env cids ch {} []) of
        Inl e \<Rightarrow> Inl e
      | Inr (E, bags) \<Rightarrow>
          Inr (sorted_list_of_set (E - {''H''}),
               map (ematrix_row (sorted_list_of_set (E - {''H''}))) bags))"
  by (simp add: get_kegg_ematrix_def Let_def split: prod.splits sum.splits)

lemmas lab_eval =
  get_kegg_compound_def from_kegg_def get_atom_bag_with_electrons_def get_species_pka_def
  predict_or_fall_back_def lab_def MIN_PH_def MAX_PH_def dict_get_def empty_cache_def
  format_cid_examples Compound_def Let_def

lemma lab_gather_two:
  "fst (gather_atom_bags lab [33, 99999] empty_cache {} []) =
     Inr ({''C'', ''H'', ''O'', ''e-''},
          [Some [(''C'', 2), (''H'', 4), (''O'', 2), (''e-'', 32)], None])"
  by (simp add: lab_eval) 

lemma lab_gather_salt:
  "fst (gather_atom_bags lab [90001] empty_cache {} []) =
     Inr ({''C'', ''H'', ''Na'', ''O'', ''e-''},
          [Some [(''C'', 2), (''H'', 3), (''Na'', 1), (''O'', 2), (''e-'', 42)]])"
  by (simp add: lab_eval)

lemma sorted_columns:
  "sorted_list_of_set ({''C'', ''H'', ''O'', ''e-''} - {''H''}) = [''C'', ''O'', ''e-'']"
  "sorted_list_of_set ({''C'', ''H'', ''Na'', ''O'', ''e-''} - {''H''}) = [''C'', ''Na'', ''O'', ''e-'']"
proof -
  have "{''C'', ''H'', ''O'', ''e-''} - {''H''} = set [''C'', ''O'', ''e-'']" by auto
  moreover have "sorted [''C'', ''O'', ''e-''] \<and> distinct [''C'', ''O'', ''e-'']" by simp
  ultimately show "sorted_list_of_set ({''C'', ''H'', ''O'', ''e-''} - {''H''}) = [''C'', ''O'', ''e-'']"
    by (simp only: sorted_list_of_set.idem_if_sorted_distinct)
  have "{''C'', ''H'', ''Na'', ''O'', ''e-''} - {''H''} = set [''C'', ''Na'', ''O'', ''e-'']" by auto
  moreover have "sorted [''C'', ''Na'', ''O'', ''e-''] \<and> distinct [''C'', ''Na'', ''O'', ''e-'']" by simp
  ultimately show "sorted_list_of_set ({''C'', ''H'', ''Na'', ''O'', ''e-''} - {''H''}) = [''C'', ''Na'', ''O'', ''e-'']"
    by (simp only: sorted_list_of_set.idem_if_sorted_distinct)
qed

lemma lab_ematrix_two:
  "fst (get_kegg_ematrix lab [33, 99999] empty_cache) =
     Inr ([''C'', ''O'', ''e-''], [[Num 2, Num 2, Num 32], [NaN, NaN, NaN]])"
  by (simp only: fst_get_kegg_ematrix lab_gather_two sum.case prod.case sorted_columns)
     (simp add: ematrix_row_def dict_get_def)

theorem get_kegg_ematrix_rows_witness:
  "fst (get_kegg_ematrix lab [33, 99999] empty_cache) =
     Inr ([''C'', ''O'', ''e-''], [[Num 2, Num 2, Num 32], [NaN, NaN, NaN]]) \<and>
   sorted [''C'', ''O'', ''e-''] \<and> distinct [''C'', ''O'', ''e-''] \<and>
   ''H'' \<notin> set [''C'', ''O'', ''e-''] \<and>
   length [[Num 2, Num 2, Num 32], [NaN, NaN, NaN]] = length [33 :: int, 99999]"
proof -
  let ?run = "get_kegg_ematrix lab [33, 99999] empty_cache"
  have run: "?run = (Inr ([''C'', ''O'', ''e-''], [[Num 2, Num 2, Num 32], [NaN, NaN, NaN]]),
                     fst (snd ?run), snd (snd ?run))"
    using lab_ematrix_two by (simp add: prod_eq_iff)
  from get_kegg_ematrix_rows [OF run] lab_ematrix_two show ?thesis by blast
qed

text \<open>
  C8, as stated, takes the composition and the net charge from the structure of the
  dominant microspecies. The compound stores only the structure that the resolver
  returned, and the matrix is computed from it: for the sodium acetate of the stub
  collaborators the dominant microspecies is the acetate ion, with 32 electrons and no
  sodium, while the row has a column \<open>Na\<close> and 42 electrons.
\<close>

theorem electrons_from_stored_structure:
  "get_inchi lab 90001 = Inr (Some ''NaOAc'') \<and>
   GetDissociationConstants lab ''NaOAc'' = Inr ([454 / 100], ''CC([O-])=O'') \<and>
   smiles2inchi lab ''CC([O-])=O'' = Some ''AcO-'' \<and>
   get_atom_bag_and_charge_from_inchi lab (Some ''AcO-'')
     = Inr ([(''C'', 2), (''H'', 3), (''O'', 2)], - 1) \<and>
   electron_count lab [(''C'', 2), (''H'', 3), (''O'', 2)] (- 1) = 32 \<and>
   fst (get_kegg_ematrix lab [90001] empty_cache) =
     Inr ([''C'', ''Na'', ''O'', ''e-''], [[Num 2, Num 1, Num 2, Num 42]])"
proof -
  have "fst (get_kegg_ematrix lab [90001] empty_cache) =
          Inr ([''C'', ''Na'', ''O'', ''e-''], [[Num 2, Num 1, Num 2, Num 42]])"
    by (simp only: fst_get_kegg_ematrix lab_gather_salt sum.case prod.case sorted_columns)
       (simp add: ematrix_row_def dict_get_def)
  moreover have "electron_count lab [(''C'', 2), (''H'', 3), (''O'', 2)] (- 1) = 32"
    by (simp add: electron_count_def lab_def)
  moreover have "get_inchi lab 90001 = Inr (Some ''NaOAc'')"
    "GetDissociationConstants lab ''NaOAc'' = Inr ([454 / 100], ''CC([O-])=O'')"
    "smiles2inchi lab ''CC([O-])=O'' = Some ''AcO-''"
    "get_atom_bag_and_charge_from_inchi lab (Some ''AcO-'')
       = Inr ([(''C'', 2), (''H'', 3), (''O'', 2)], - 1)"
    by (simp_all add: lab_def)
  ultimately show ?thesis by blast
qed

end
